theory Spec2Isabelle
  imports Complex_Main
begin

section \<open>The drive-by-wire node of twist\_controller/dbw\_node.py\<close>

text \<open>
  The node stores the latest value of each input in a field, written by a subscriber
  callback, and a loop reads the fields once per iteration. The numbers are Python floats
  that the node only stores and forwards (it does no arithmetic on them), so they are
  modelled as \<open>real\<close>. A field that is \<open>None\<close> until its first message is an \<open>option\<close>.
\<close>

subsection \<open>Configuration\<close>

definition TWIST_CONTROLLER_UPDATE_FREQUENCY :: nat where
  "TWIST_CONTROLLER_UPDATE_FREQUENCY = 10"

text \<open>The ten keyword arguments of the \<open>Controller\<close> constructor.\<close>

record vehicle_params =
  vehicle_mass :: real
  fuel_capacity :: real
  brake_deadband :: real
  decel_limit :: real
  accel_limit :: real
  wheel_radius :: real
  wheel_base :: real
  steer_ratio :: real
  max_lat_accel :: real
  max_steer_angle :: real

text \<open>
  The parameter server maps a name to a value; \<open>rospy.get_param(name, default)\<close> returns
  the default when the name is not set.
\<close>

type_synonym param_server = "string \<rightharpoonup> real"

definition get_param :: "param_server \<Rightarrow> string \<Rightarrow> real \<Rightarrow> real" where
  "get_param ps name dflt = (case ps name of None \<Rightarrow> dflt | Some v \<Rightarrow> v)"

definition controller_args :: "param_server \<Rightarrow> vehicle_params" where
  "controller_args ps =
     \<lparr> vehicle_mass = get_param ps ''~vehicle_mass'' 1736.35,
       fuel_capacity = get_param ps ''~fuel_capacity'' 13.5,
       brake_deadband = get_param ps ''~brake_deadband'' 0.1,
       decel_limit = get_param ps ''~decel_limit'' (- 5),
       accel_limit = get_param ps ''~accel_limit'' 1,
       wheel_radius = get_param ps ''~wheel_radius'' 0.2413,
       wheel_base = get_param ps ''~wheel_base'' 2.8498,
       steer_ratio = get_param ps ''~steer_ratio'' 14.8,
       max_lat_accel = get_param ps ''~max_lat_accel'' 3,
       max_steer_angle = get_param ps ''~max_steer_angle'' 8 \<rparr>"

text \<open>The invariant the data model asks of the vehicle parameters.\<close>

definition params_invariant :: "vehicle_params \<Rightarrow> bool" where
  "params_invariant p =
     (decel_limit p < 0 \<and> 0 < accel_limit p \<and>
      0 < wheel_radius p \<and> 0 < wheel_base p \<and> 0 < steer_ratio p)"

subsection \<open>Messages\<close>

text \<open>
  \<open>std_msgs/Bool\<close> has the one field \<open>data\<close>. Of a \<open>geometry_msgs/TwistStamped\<close> the
  callbacks read \<open>msg.twist.linear.x\<close> and \<open>msg.twist.angular.z\<close>; the header is left out.
\<close>

datatype bool_msg = BoolMsg (msg_data: bool)

datatype vector3 = Vector3 (vec_x: real) (vec_y: real) (vec_z: real)

datatype twist = Twist (twist_linear: vector3) (twist_angular: vector3)

datatype twist_stamped = TwistStamped (stamped_twist: twist)

text \<open>
  The value held by \<open>self.dbw_enabled\<close>: the constructor stores the Python bool \<open>True\<close>,
  and \<open>dbw_enabled_cb\<close> stores the message object it receives (\<open>msg\<close>, not \<open>msg.data\<close>).
  In a condition Python takes the truth value of the object: a bool is its own value; a
  message object, whose class defines neither \<open>__nonzero__\<close>/\<open>__bool__\<close> nor \<open>__len__\<close>,
  is true whatever its \<open>data\<close> field holds.
\<close>

datatype flag_value = Py_bool bool | Py_msg bool_msg

fun truthy :: "flag_value \<Rightarrow> bool" where
  "truthy (Py_bool b) = b"
| "truthy (Py_msg m) = True"

subsection \<open>Observable effects\<close>

text \<open>
  What the node does to the outside, in order: the call of \<open>controller.control\<close> with its
  four arguments, the log lines, and the three actuator messages of \<open>publish\<close>.
\<close>

datatype pedal_cmd_type = CMD_PERCENT | CMD_TORQUE

datatype effect =
    Control_call real flag_value real real
  | Loginfo_output real real real
  | Loginfo_disabled
  | Loginfo_turned string
  | Throttle_pub bool pedal_cmd_type real
  | Steering_pub bool real
  | Brake_pub bool pedal_cmd_type real

fun is_control_call :: "effect \<Rightarrow> bool" where
  "is_control_call (Control_call cv en lv av) = True"
| "is_control_call e = False"

fun is_actuator_cmd :: "effect \<Rightarrow> bool" where
  "is_actuator_cmd (Throttle_pub en ty v) = True"
| "is_actuator_cmd (Steering_pub en v) = True"
| "is_actuator_cmd (Brake_pub en ty v) = True"
| "is_actuator_cmd e = False"

definition control_calls :: "effect list \<Rightarrow> effect list" where
  "control_calls out = filter is_control_call out"

definition transmitted :: "effect list \<Rightarrow> effect list" where
  "transmitted out = filter is_actuator_cmd out"

subsection \<open>The node\<close>

text \<open>
  The class \<open>Controller\<close> lives in twist\_controller.py; the node only calls it. Its
  constructor and its \<open>control\<close> method are parameters of the model: the constructor may
  raise (\<open>Inl\<close>), \<open>control\<close> takes the controller's state and the four arguments and
  returns the triple (throttle, brake, steer) with the new state.
\<close>

type_synonym ('e, 'c) controller_init = "vehicle_params \<Rightarrow> 'e + 'c"

type_synonym 'c control_fn =
  "'c \<Rightarrow> real \<Rightarrow> flag_value \<Rightarrow> real \<Rightarrow> real \<Rightarrow> (real \<times> real \<times> real) \<times> 'c"

record 'c dbw_node =
  controller :: 'c
  current_vel :: "real option"
  current_ang_vel :: "real option"
  linear_vel :: "real option"
  angular_vel :: "real option"
  dbw_enabled :: flag_value
  throttle :: real
  steering :: real
  brake :: real

text \<open>The fields as \<open>__init__\<close> leaves them, before it enters the loop.\<close>

definition initial_node :: "'c \<Rightarrow> 'c dbw_node" where
  "initial_node c =
     \<lparr> controller = c, current_vel = None, current_ang_vel = None,
       linear_vel = None, angular_vel = None, dbw_enabled = Py_bool True,
       throttle = 0, steering = 0, brake = 0 \<rparr>"

definition DBWNode_init :: "('e, 'c) controller_init \<Rightarrow> param_server \<Rightarrow> 'e + 'c dbw_node" where
  "DBWNode_init Controller ps =
     (case Controller (controller_args ps) of
        Inl e \<Rightarrow> Inl e
      | Inr c \<Rightarrow> Inr (initial_node c))"

subsubsection \<open>Callbacks\<close>

definition dbw_enabled_cb :: "'c dbw_node \<Rightarrow> bool_msg \<Rightarrow> 'c dbw_node \<times> effect list" where
  "dbw_enabled_cb n msg =
     (let n' = n\<lparr>dbw_enabled := Py_msg msg\<rparr>
      in (n', [Loginfo_turned (if truthy (dbw_enabled n') then ''on'' else ''off'')]))"

definition twist_cb :: "'c dbw_node \<Rightarrow> twist_stamped \<Rightarrow> 'c dbw_node" where
  "twist_cb n msg =
     n\<lparr>linear_vel := Some (vec_x (twist_linear (stamped_twist msg))),
       angular_vel := Some (vec_z (twist_angular (stamped_twist msg)))\<rparr>"

definition velocity_cb :: "'c dbw_node \<Rightarrow> twist_stamped \<Rightarrow> 'c dbw_node" where
  "velocity_cb n msg = n\<lparr>current_vel := Some (vec_x (twist_linear (stamped_twist msg)))\<rparr>"

subsubsection \<open>Publishing\<close>

definition publish :: "real \<Rightarrow> real \<Rightarrow> real \<Rightarrow> effect list" where
  "publish thr brk steer =
     [Throttle_pub True CMD_PERCENT thr, Steering_pub True steer, Brake_pub True CMD_TORQUE brk]"

subsubsection \<open>One iteration of the loop\<close>

text \<open>\<open>not None in (self.current_vel, self.linear_vel, self.angular_vel)\<close>\<close>

definition inputs_ready :: "'c dbw_node \<Rightarrow> bool" where
  "inputs_ready n = (None \<notin> set [current_vel n, linear_vel n, angular_vel n])"

definition control_step :: "'c control_fn \<Rightarrow> 'c dbw_node \<Rightarrow> 'c dbw_node \<times> effect list" where
  "control_step control n =
     (if inputs_ready n then
        (case control (controller n) (the (current_vel n)) (dbw_enabled n)
                      (the (linear_vel n)) (the (angular_vel n)) of
           ((t, b, s), c') \<Rightarrow>
             (n\<lparr>controller := c', throttle := t, brake := b, steering := s\<rparr>,
              [Control_call (the (current_vel n)) (dbw_enabled n)
                            (the (linear_vel n)) (the (angular_vel n))]))
      else (n, []))"

definition publish_step :: "'c dbw_node \<Rightarrow> effect list" where
  "publish_step n =
     (if truthy (dbw_enabled n) then
        Loginfo_output (throttle n) (brake n) (steering n)
          # publish (throttle n) (brake n) (steering n)
      else [Loginfo_disabled])"

definition loop_iteration :: "'c control_fn \<Rightarrow> 'c dbw_node \<Rightarrow> 'c dbw_node \<times> effect list" where
  "loop_iteration control n =
     (case control_step control n of (n1, called) \<Rightarrow> (n1, called @ publish_step n1))"

subsubsection \<open>A run of the node\<close>

text \<open>
  A schedule lists what happens in order until shutdown: an iteration of the loop
  (\<open>Tick\<close>) or the delivery of a message to its callback. Callbacks are taken to run
  between iterations.
\<close>

datatype event =
    Tick
  | Dbw_enabled_msg bool_msg
  | Twist_cmd_msg twist_stamped
  | Current_velocity_msg twist_stamped

fun handle_event :: "'c control_fn \<Rightarrow> 'c dbw_node \<Rightarrow> event \<Rightarrow> 'c dbw_node \<times> effect list" where
  "handle_event control n Tick = loop_iteration control n"
| "handle_event control n (Dbw_enabled_msg m) = dbw_enabled_cb n m"
| "handle_event control n (Twist_cmd_msg m) = (twist_cb n m, [])"
| "handle_event control n (Current_velocity_msg m) = (velocity_cb n m, [])"

fun run_node :: "'c control_fn \<Rightarrow> 'c dbw_node \<Rightarrow> event list \<Rightarrow> 'c dbw_node \<times> effect list" where
  "run_node control n [] = (n, [])"
| "run_node control n (e # es) =
     (case handle_event control n e of
        (n1, out1) \<Rightarrow> (case run_node control n1 es of (n2, out2) \<Rightarrow> (n2, out1 @ out2)))"

definition node_after :: "'c control_fn \<Rightarrow> 'c dbw_node \<Rightarrow> event list \<Rightarrow> 'c dbw_node" where
  "node_after control n es = fst (run_node control n es)"

text \<open>\<open>DBWNode()\<close>: construct, then loop until the schedule ends.\<close>

definition DBWNode ::
  "('e, 'c) controller_init \<Rightarrow> 'c control_fn \<Rightarrow> param_server \<Rightarrow> event list
     \<Rightarrow> 'e + ('c dbw_node \<times> effect list)" where
  "DBWNode Controller control ps es =
     (case DBWNode_init Controller ps of
        Inl e \<Rightarrow> Inl e
      | Inr n \<Rightarrow> Inr (run_node control n es))"

subsection \<open>Predicates on schedules and states\<close>

fun is_dbw_enabled_msg :: "event \<Rightarrow> bool" where
  "is_dbw_enabled_msg (Dbw_enabled_msg m) = True"
| "is_dbw_enabled_msg e = False"

fun is_twist_cmd_msg :: "event \<Rightarrow> bool" where
  "is_twist_cmd_msg (Twist_cmd_msg m) = True"
| "is_twist_cmd_msg e = False"

fun is_current_velocity_msg :: "event \<Rightarrow> bool" where
  "is_current_velocity_msg (Current_velocity_msg m) = True"
| "is_current_velocity_msg e = False"

text \<open>The held outputs are still the zeros of \<open>__init__\<close>.\<close>

definition held_zero :: "'c dbw_node \<Rightarrow> bool" where
  "held_zero n = (throttle n = 0 \<and> brake n = 0 \<and> steering n = 0)"

subsection \<open>The constructor of the controller\<close>



subsection \<open>Inputs for concrete runs\<close>

text \<open>
  A stand-in for \<open>control\<close> that returns its three numeric arguments as (throttle,
  brake, steer), and a stamped twist with the two components the callbacks read.
\<close>

abbreviation echo_control :: "unit control_fn" where
  "echo_control \<equiv> \<lambda>c cv en lv av. ((cv, lv, av), c)"

abbreviation stamped :: "real \<Rightarrow> real \<Rightarrow> twist_stamped" where
  "stamped lx az \<equiv> TwistStamped (Twist (Vector3 lx 0 0) (Vector3 0 0 az))"

section \<open>Properties\<close>

lemmas node_eval =
  node_after_def loop_iteration_def control_step_def publish_step_def publish_def
  inputs_ready_def initial_node_def dbw_enabled_cb_def twist_cb_def velocity_cb_def
  control_calls_def transmitted_def Let_def

subsection \<open>What one iteration does\<close>

lemma inputs_ready_iff:
  "inputs_ready n \<longleftrightarrow>
     current_vel n \<noteq> None \<and> linear_vel n \<noteq> None \<and> angular_vel n \<noteq> None"
  by (cases "current_vel n"; cases "linear_vel n"; cases "angular_vel n")
     (simp_all add: inputs_ready_def)

lemma control_calls_append: "control_calls (xs @ ys) = control_calls xs @ control_calls ys"
  by (simp add: control_calls_def)

lemma transmitted_append: "transmitted (xs @ ys) = transmitted xs @ transmitted ys"
  by (simp add: transmitted_def)

lemma control_calls_control_step:
  "control_calls (snd (control_step control n)) =
     (if inputs_ready n then
        [Control_call (the (current_vel n)) (dbw_enabled n)
                      (the (linear_vel n)) (the (angular_vel n))]
      else [])"
  by (simp add: control_step_def control_calls_def split: prod.splits)

lemma control_calls_publish_step: "control_calls (publish_step n) = []"
  by (simp add: publish_step_def control_calls_def publish_def)

lemma control_calls_loop_iteration:
  "control_calls (snd (loop_iteration control n)) =
     (if inputs_ready n then
        [Control_call (the (current_vel n)) (dbw_enabled n)
                      (the (linear_vel n)) (the (angular_vel n))]
      else [])"
proof (cases "control_step control n")
  case (Pair n1 called)
  with control_calls_control_step [of control n] show ?thesis
    by (simp add: loop_iteration_def control_calls_append control_calls_publish_step)
qed

lemma dbw_enabled_control_step: "dbw_enabled (fst (control_step control n)) = dbw_enabled n"
  by (simp add: control_step_def split: prod.splits)

lemma transmitted_control_step: "transmitted (snd (control_step control n)) = []"
  by (simp add: control_step_def transmitted_def split: prod.splits)

lemma transmitted_publish_step:
  "transmitted (publish_step n) =
     (if truthy (dbw_enabled n) then publish (throttle n) (brake n) (steering n) else [])"
  by (simp add: publish_step_def transmitted_def publish_def)

lemma transmitted_loop_iteration:
  "transmitted (snd (loop_iteration control n)) =
     (let n1 = fst (loop_iteration control n) in
      if truthy (dbw_enabled n) then publish (throttle n1) (brake n1) (steering n1) else [])"
proof (cases "control_step control n")
  case (Pair n1 called)
  with transmitted_control_step [of control n] dbw_enabled_control_step [of control n]
  show ?thesis
    by (simp add: loop_iteration_def transmitted_append transmitted_publish_step)
qed

subsection \<open>Runs\<close>

lemma node_after_Nil: "node_after control n [] = n"
  by (simp add: node_after_def)

lemma node_after_Cons:
  "node_after control n (e # es) = node_after control (fst (handle_event control n e)) es"
  by (simp add: node_after_def split: prod.splits)

lemma run_node_append:
  "run_node control n (es @ fs) =
     (case run_node control n es of
        (n1, out1) \<Rightarrow> (case run_node control n1 fs of (n2, out2) \<Rightarrow> (n2, out1 @ out2)))"
  by (induction es arbitrary: n) (simp_all split: prod.splits)

lemma node_after_append:
  "node_after control n (es @ fs) = node_after control (node_after control n es) fs"
  by (simp add: node_after_def run_node_append split: prod.splits)

lemma control_step_inputs:
  "current_vel (fst (control_step control n)) = current_vel n"
  "linear_vel (fst (control_step control n)) = linear_vel n"
  "angular_vel (fst (control_step control n)) = angular_vel n"
  by (simp_all add: control_step_def split: prod.splits)

lemma fst_loop_iteration: "fst (loop_iteration control n) = fst (control_step control n)"
  by (cases "control_step control n") (simp add: loop_iteration_def)

lemma loop_iteration_inputs:
  "current_vel (fst (loop_iteration control n)) = current_vel n"
  "linear_vel (fst (loop_iteration control n)) = linear_vel n"
  "angular_vel (fst (loop_iteration control n)) = angular_vel n"
  "dbw_enabled (fst (loop_iteration control n)) = dbw_enabled n"
  by (simp_all add: fst_loop_iteration control_step_inputs dbw_enabled_control_step)

lemma inputs_ready_handle_event:
  "inputs_ready n \<Longrightarrow> inputs_ready (fst (handle_event control n e))"
  by (cases e)
     (simp_all add: inputs_ready_iff loop_iteration_inputs dbw_enabled_cb_def Let_def
        twist_cb_def velocity_cb_def)

lemma inputs_ready_node_after:
  "inputs_ready n \<Longrightarrow> inputs_ready (node_after control n es)"
  by (induction es arbitrary: n) (simp_all add: node_after_Nil node_after_Cons inputs_ready_handle_event)

lemma truthy_handle_event:
  "truthy (dbw_enabled n) \<Longrightarrow> truthy (dbw_enabled (fst (handle_event control n e)))"
  by (cases e)
     (simp_all add: loop_iteration_inputs dbw_enabled_cb_def Let_def twist_cb_def velocity_cb_def)

lemma truthy_node_after:
  "truthy (dbw_enabled n) \<Longrightarrow> truthy (dbw_enabled (node_after control n es))"
  by (induction es arbitrary: n) (simp_all add: node_after_Nil node_after_Cons truthy_handle_event)

lemma control_step_not_ready: "\<not> inputs_ready n \<Longrightarrow> control_step control n = (n, [])"
  by (simp add: control_step_def)

lemma loop_iteration_not_ready:
  "\<not> inputs_ready n \<Longrightarrow> loop_iteration control n = (n, publish_step n)"
  by (simp add: loop_iteration_def control_step_not_ready)

lemma fresh_handle_event:
  assumes "inputs_ready n \<or> held_zero n"
  shows "inputs_ready (fst (handle_event control n e)) \<or> held_zero (fst (handle_event control n e))"
proof (cases "inputs_ready n")
  case True
  then show ?thesis by (simp add: inputs_ready_handle_event)
next
  case False
  with assms have "held_zero n" by simp
  with False show ?thesis
    by (cases e)
       (simp_all add: loop_iteration_not_ready held_zero_def dbw_enabled_cb_def Let_def
          twist_cb_def velocity_cb_def)
qed

lemma fresh_node_after:
  "inputs_ready n \<or> held_zero n \<Longrightarrow>
   inputs_ready (node_after control n es) \<or> held_zero (node_after control n es)"
proof (induction es arbitrary: n)
  case Nil
  then show ?case by (simp add: node_after_Nil)
next
  case (Cons e es)
  from Cons.prems have "inputs_ready (fst (handle_event control n e)) \<or> held_zero (fst (handle_event control n e))"
    by (rule fresh_handle_event)
  then show ?case unfolding node_after_Cons by (rule Cons.IH)
qed

lemma handle_event_current_vel:
  "current_vel (fst (handle_event control n e)) =
     (case e of Current_velocity_msg m \<Rightarrow> Some (vec_x (twist_linear (stamped_twist m)))
              | _ \<Rightarrow> current_vel n)"
  by (cases e)
     (simp_all add: loop_iteration_inputs dbw_enabled_cb_def Let_def twist_cb_def velocity_cb_def)

lemma handle_event_linear_vel:
  "linear_vel (fst (handle_event control n e)) =
     (case e of Twist_cmd_msg m \<Rightarrow> Some (vec_x (twist_linear (stamped_twist m)))
              | _ \<Rightarrow> linear_vel n)"
  by (cases e)
     (simp_all add: loop_iteration_inputs dbw_enabled_cb_def Let_def twist_cb_def velocity_cb_def)

lemma handle_event_angular_vel:
  "angular_vel (fst (handle_event control n e)) =
     (case e of Twist_cmd_msg m \<Rightarrow> Some (vec_z (twist_angular (stamped_twist m)))
              | _ \<Rightarrow> angular_vel n)"
  by (cases e)
     (simp_all add: loop_iteration_inputs dbw_enabled_cb_def Let_def twist_cb_def velocity_cb_def)

lemma handle_event_dbw_enabled:
  "dbw_enabled (fst (handle_event control n e)) =
     (case e of Dbw_enabled_msg m \<Rightarrow> Py_msg m | _ \<Rightarrow> dbw_enabled n)"
  by (cases e)
     (simp_all add: loop_iteration_inputs dbw_enabled_cb_def Let_def twist_cb_def velocity_cb_def)

lemma current_vel_unchanged:
  "\<not> list_ex is_current_velocity_msg es \<Longrightarrow>
   current_vel (node_after control n es) = current_vel n"
proof (induction es arbitrary: n)
  case Nil
  show ?case by (simp add: node_after_Nil)
next
  case (Cons e es)
  then show ?case
    by (auto simp: node_after_Cons handle_event_current_vel split: event.splits)
qed

lemma twist_unchanged:
  "\<not> list_ex is_twist_cmd_msg es \<Longrightarrow>
   linear_vel (node_after control n es) = linear_vel n \<and>
   angular_vel (node_after control n es) = angular_vel n"
proof (induction es arbitrary: n)
  case Nil
  show ?case by (simp add: node_after_Nil)
next
  case (Cons e es)
  then show ?case
    by (auto simp: node_after_Cons handle_event_linear_vel handle_event_angular_vel split: event.splits)
qed

lemma dbw_enabled_unchanged:
  "\<not> list_ex is_dbw_enabled_msg es \<Longrightarrow>
   dbw_enabled (node_after control n es) = dbw_enabled n"
proof (induction es arbitrary: n)
  case Nil
  show ?case by (simp add: node_after_Nil)
next
  case (Cons e es)
  then show ?case
    by (auto simp: node_after_Cons handle_event_dbw_enabled split: event.splits)
qed

lemma current_vel_observed:
  "current_vel (node_after control n es) = None \<longleftrightarrow>
     current_vel n = None \<and> \<not> list_ex is_current_velocity_msg es"
proof (induction es arbitrary: n)
  case Nil
  show ?case by (simp add: node_after_Nil)
next
  case (Cons e es)
  show ?case
    by (auto simp: node_after_Cons Cons.IH handle_event_current_vel split: event.splits)
qed

lemma linear_vel_observed:
  "linear_vel (node_after control n es) = None \<longleftrightarrow>
     linear_vel n = None \<and> \<not> list_ex is_twist_cmd_msg es"
proof (induction es arbitrary: n)
  case Nil
  show ?case by (simp add: node_after_Nil)
next
  case (Cons e es)
  show ?case
    by (auto simp: node_after_Cons Cons.IH handle_event_linear_vel split: event.splits)
qed

lemma angular_vel_observed:
  "angular_vel (node_after control n es) = None \<longleftrightarrow>
     angular_vel n = None \<and> \<not> list_ex is_twist_cmd_msg es"
proof (induction es arbitrary: n)
  case Nil
  show ?case by (simp add: node_after_Nil)
next
  case (Cons e es)
  show ?case
    by (auto simp: node_after_Cons Cons.IH handle_event_angular_vel split: event.splits)
qed

lemma control_calls_handle_event:
  assumes "\<not> inputs_ready n"
  shows "control_calls (snd (handle_event control n e)) = []"
proof (cases e)
  case Tick
  then show ?thesis using assms by (simp add: control_calls_loop_iteration)
qed (simp_all add: dbw_enabled_cb_def Let_def control_calls_def)

lemma no_control_before_ready:
  "\<not> inputs_ready (node_after control n es) \<Longrightarrow>
   control_calls (snd (run_node control n es)) = []"
proof (induction es arbitrary: n)
  case Nil
  show ?case by (simp add: control_calls_def)
next
  case (Cons e es)
  obtain n1 out1 where h: "handle_event control n e = (n1, out1)"
    by (cases "handle_event control n e")
  obtain n2 out2 where r: "run_node control n1 es = (n2, out2)"
    by (cases "run_node control n1 es")
  from Cons.prems h have later: "\<not> inputs_ready (node_after control n1 es)"
    by (simp add: node_after_Cons)
  then have "\<not> inputs_ready n1"
    using inputs_ready_node_after [of n1 control es] by blast
  with h have "\<not> inputs_ready n"
    using inputs_ready_handle_event [of n control e] by auto
  then have "control_calls out1 = []"
    using control_calls_handle_event [of n control e] h by simp
  moreover from later r have "control_calls out2 = []"
    using Cons.IH [of n1] by simp
  ultimately show ?case
    using h r by (simp add: control_calls_append)
qed

subsection \<open>Defaults of the vehicle parameters\<close>

text \<open>
  Claim C5. With nothing set on the parameter server, the constructor passes a default
  for each of the ten vehicle parameters (vehicle\_mass 1736.35, fuel\_capacity 13.5,
  brake\_deadband 0.1, decel\_limit -5, accel\_limit 1.0, wheel\_radius 0.2413, wheel\_base
  2.8498, steer\_ratio 14.8, max\_lat\_accel 3.0, max\_steer\_angle 8.0), and these
  defaults satisfy the invariant decel\_limit < 0 < accel\_limit and wheel\_radius,
  wheel\_base, steer\_ratio > 0.
\<close>

theorem default_params_satisfy_invariant:
  "controller_args Map.empty =
     \<lparr> vehicle_mass = 1736.35, fuel_capacity = 13.5, brake_deadband = 0.1,
       decel_limit = - 5, accel_limit = 1.0, wheel_radius = 0.2413,
       wheel_base = 2.8498, steer_ratio = 14.8, max_lat_accel = 3.0,
       max_steer_angle = 8.0 \<rparr>
   \<and> params_invariant (controller_args Map.empty)"
  by (simp add: controller_args_def get_param_def params_invariant_def)

subsection \<open>The loop\<close>

text \<open>
  Claim C1 asks that no tick publishes after a disable message (data = false). The node
  stores the message object, which is true in the condition of the loop, so the tick after
  a disable message still logs the outputs and publishes the three commands. The run
  below is the construction, one message with data = false, one tick.
\<close>

theorem disable_message_still_publishes:
  "snd (run_node control (initial_node c) [Dbw_enabled_msg (BoolMsg False), Tick]) =
     [Loginfo_turned ''on'', Loginfo_output 0 0 0,
      Throttle_pub True CMD_PERCENT 0, Steering_pub True 0, Brake_pub True CMD_TORQUE 0]"
  by (simp add: dbw_enabled_cb_def Let_def loop_iteration_def control_step_def
      inputs_ready_def publish_step_def publish_def initial_node_def)

text \<open>
  Claim C2. A tick invokes \<open>control\<close> if and only if current velocity, linear setpoint
  and angular setpoint are all not \<open>None\<close>; in a run from construction that is the case
  exactly when a velocity message and a twist message have each been delivered, and before
  that the run holds no call of \<open>control\<close> at all.
\<close>

theorem control_iff_inputs_observed:
  "(control_calls (snd (loop_iteration control n)) \<noteq> [] \<longleftrightarrow>
      current_vel n \<noteq> None \<and> linear_vel n \<noteq> None \<and> angular_vel n \<noteq> None)
   \<and> (control_calls (snd (loop_iteration control (node_after control (initial_node c) es))) \<noteq> [] \<longleftrightarrow>
      list_ex is_current_velocity_msg es \<and> list_ex is_twist_cmd_msg es)
   \<and> (\<not> (list_ex is_current_velocity_msg es \<and> list_ex is_twist_cmd_msg es) \<longrightarrow>
      control_calls (snd (run_node control (initial_node c) es)) = [])"
proof -
  have a: "control_calls (snd (loop_iteration control m)) \<noteq> [] \<longleftrightarrow> inputs_ready m" for m :: "'a dbw_node"
    by (simp add: control_calls_loop_iteration)
  have b: "inputs_ready (node_after control (initial_node c) es) \<longleftrightarrow>
      list_ex is_current_velocity_msg es \<and> list_ex is_twist_cmd_msg es"
    unfolding inputs_ready_iff
    by (simp only: current_vel_observed linear_vel_observed angular_vel_observed)
       (simp add: initial_node_def)
  from a [of n] have 1: "control_calls (snd (loop_iteration control n)) \<noteq> [] \<longleftrightarrow>
      current_vel n \<noteq> None \<and> linear_vel n \<noteq> None \<and> angular_vel n \<noteq> None"
    by (simp only: inputs_ready_iff)
  from a b have 2: "control_calls (snd (loop_iteration control (node_after control (initial_node c) es))) \<noteq> [] \<longleftrightarrow>
      list_ex is_current_velocity_msg es \<and> list_ex is_twist_cmd_msg es"
    by simp
  from b have 3: "\<not> (list_ex is_current_velocity_msg es \<and> list_ex is_twist_cmd_msg es) \<longrightarrow>
      control_calls (snd (run_node control (initial_node c) es)) = []"
    using no_control_before_ready [of control "initial_node c" es] by blast
  from 1 2 3 show ?thesis by blast
qed

theorem control_iff_inputs_observed_witness:
  "\<not> (list_ex is_current_velocity_msg [Tick, Twist_cmd_msg (stamped 5 6), Tick]
       \<and> list_ex is_twist_cmd_msg [Tick, Twist_cmd_msg (stamped 5 6), Tick])
   \<and> control_calls (snd (run_node echo_control (initial_node ())
        [Tick, Twist_cmd_msg (stamped 5 6), Tick])) = []"
proof -
  have h: "\<not> (list_ex is_current_velocity_msg [Tick, Twist_cmd_msg (stamped 5 6), Tick]
       \<and> list_ex is_twist_cmd_msg [Tick, Twist_cmd_msg (stamped 5 6), Tick])"
    by simp
  from control_iff_inputs_observed [of echo_control "initial_node ()" "()"
      "[Tick, Twist_cmd_msg (stamped 5 6), Tick]"] h
  show ?thesis by blast
qed

text \<open>
  Claim C3. On a tick where the three inputs are ready, \<open>control\<close> is invoked and its
  three results are stored whatever value the enable flag holds; the flag decides only
  whether the three commands are transmitted.
\<close>

theorem control_invoked_whatever_the_flag:
  assumes "current_vel n = Some cv" and "linear_vel n = Some lv" and "angular_vel n = Some av"
  shows "control_calls (snd (loop_iteration control (n\<lparr>dbw_enabled := f\<rparr>))) =
           [Control_call cv f lv av]
       \<and> (let n1 = fst (loop_iteration control (n\<lparr>dbw_enabled := f\<rparr>))
          in (throttle n1, brake n1, steering n1) = fst (control (controller n) cv f lv av))
       \<and> (transmitted (snd (loop_iteration control (n\<lparr>dbw_enabled := f\<rparr>))) \<noteq> [] \<longleftrightarrow> truthy f)"
proof -
  let ?n = "n\<lparr>dbw_enabled := f\<rparr>"
  from assms have r: "inputs_ready ?n" by (simp add: inputs_ready_iff)
  with assms have 1: "control_calls (snd (loop_iteration control ?n)) = [Control_call cv f lv av]"
    by (simp add: control_calls_loop_iteration)
  from assms r have 2: "(let n1 = fst (loop_iteration control ?n)
          in (throttle n1, brake n1, steering n1) = fst (control (controller n) cv f lv av))"
    by (simp add: fst_loop_iteration control_step_def split: prod.splits)
  have 3: "transmitted (snd (loop_iteration control ?n)) \<noteq> [] \<longleftrightarrow> truthy f"
    by (simp add: transmitted_loop_iteration Let_def publish_def)
  from 1 2 3 show ?thesis by blast
qed

theorem control_invoked_whatever_the_flag_witness:
  "current_vel (initial_node ()\<lparr>current_vel := Some 4, linear_vel := Some 5, angular_vel := Some 6\<rparr>) = Some 4
   \<and> linear_vel (initial_node ()\<lparr>current_vel := Some 4, linear_vel := Some 5, angular_vel := Some 6\<rparr>) = Some 5
   \<and> angular_vel (initial_node ()\<lparr>current_vel := Some 4, linear_vel := Some 5, angular_vel := Some 6\<rparr>) = Some 6
   \<and> control_calls (snd (loop_iteration echo_control
        (initial_node ()\<lparr>current_vel := Some 4, linear_vel := Some 5, angular_vel := Some 6,
                          dbw_enabled := Py_bool False\<rparr>))) = [Control_call 4 (Py_bool False) 5 6]
   \<and> transmitted (snd (loop_iteration echo_control
        (initial_node ()\<lparr>current_vel := Some 4, linear_vel := Some 5, angular_vel := Some 6,
                          dbw_enabled := Py_bool False\<rparr>))) = []"
proof -
  let ?n = "initial_node ()\<lparr>current_vel := Some 4, linear_vel := Some 5, angular_vel := Some 6\<rparr>"
  have h1: "current_vel ?n = Some 4" and h2: "linear_vel ?n = Some 5"
    and h3: "angular_vel ?n = Some 6"
    by simp_all
  from control_invoked_whatever_the_flag [OF h1 h2 h3, of echo_control "Py_bool False"] h1 h2 h3
  show ?thesis by simp
qed

text \<open>
  Claim C7. \<open>control\<close> is called with (current velocity, enable flag, linear setpoint,
  angular setpoint) in this order, and its result triple is bound in the order (throttle,
  brake, steer) to the node's held outputs.
\<close>

theorem control_arguments_and_results_in_order:
  assumes "current_vel n = Some cv" and "linear_vel n = Some lv" and "angular_vel n = Some av"
    and "control (controller n) cv (dbw_enabled n) lv av = ((t, b, s), c')"
  shows "control_calls (snd (loop_iteration control n)) = [Control_call cv (dbw_enabled n) lv av]
       \<and> fst (loop_iteration control n) = n\<lparr>controller := c', throttle := t, brake := b, steering := s\<rparr>
       \<and> throttle (fst (loop_iteration control n)) = t
       \<and> brake (fst (loop_iteration control n)) = b
       \<and> steering (fst (loop_iteration control n)) = s"
proof -
  from assms have r: "inputs_ready n" by (simp add: inputs_ready_iff)
  with assms have 1: "control_calls (snd (loop_iteration control n)) = [Control_call cv (dbw_enabled n) lv av]"
    by (simp add: control_calls_loop_iteration)
  from assms r have 2: "fst (loop_iteration control n) = n\<lparr>controller := c', throttle := t, brake := b, steering := s\<rparr>"
    by (simp add: fst_loop_iteration control_step_def)
  from 1 2 show ?thesis by simp
qed

theorem control_arguments_and_results_in_order_witness:
  "current_vel (initial_node ()\<lparr>current_vel := Some 4, linear_vel := Some 5, angular_vel := Some 6\<rparr>) = Some 4
   \<and> linear_vel (initial_node ()\<lparr>current_vel := Some 4, linear_vel := Some 5, angular_vel := Some 6\<rparr>) = Some 5
   \<and> angular_vel (initial_node ()\<lparr>current_vel := Some 4, linear_vel := Some 5, angular_vel := Some 6\<rparr>) = Some 6
   \<and> echo_control () 4 (Py_bool True) 5 6 = ((4, 5, 6), ())
   \<and> control_calls (snd (loop_iteration echo_control
        (initial_node ()\<lparr>current_vel := Some 4, linear_vel := Some 5, angular_vel := Some 6\<rparr>)))
       = [Control_call 4 (Py_bool True) 5 6]
   \<and> throttle (fst (loop_iteration echo_control
        (initial_node ()\<lparr>current_vel := Some 4, linear_vel := Some 5, angular_vel := Some 6\<rparr>))) = 4
   \<and> brake (fst (loop_iteration echo_control
        (initial_node ()\<lparr>current_vel := Some 4, linear_vel := Some 5, angular_vel := Some 6\<rparr>))) = 5
   \<and> steering (fst (loop_iteration echo_control
        (initial_node ()\<lparr>current_vel := Some 4, linear_vel := Some 5, angular_vel := Some 6\<rparr>))) = 6"
proof -
  let ?n = "initial_node ()\<lparr>current_vel := Some 4, linear_vel := Some 5, angular_vel := Some 6\<rparr>"
  have h1: "current_vel ?n = Some 4" and h2: "linear_vel ?n = Some 5"
    and h3: "angular_vel ?n = Some 6"
    by simp_all
  have d: "dbw_enabled ?n = Py_bool True" by (simp add: initial_node_def)
  have h4: "echo_control (controller ?n) 4 (dbw_enabled ?n) 5 6 = ((4, 5, 6), ())"
    by simp
  note t = control_arguments_and_results_in_order [where control = echo_control and n = ?n
      and cv = 4 and lv = 5 and av = 6 and t = 4 and b = 5 and s = 6 and c' = "()"]
  from t [OF h1 h2 h3 h4] h1 h2 h3 d
  show ?thesis by simp
qed

text \<open>
  Claim C8. As long as no message has arrived on /vehicle/dbw\_enabled the flag is the
  \<open>True\<close> of the constructor, so every tick sends the three commands (throttle, steering,
  brake) carrying the held outputs; these are initially (0, 0, 0), which is what the first
  tick of a fresh node sends.
\<close>

theorem publishes_before_any_enable_message:
  assumes "\<not> list_ex is_dbw_enabled_msg es"
  shows "dbw_enabled (node_after control (initial_node c) es) = Py_bool True
       \<and> (let n1 = fst (loop_iteration control (node_after control (initial_node c) es))
          in transmitted (snd (loop_iteration control (node_after control (initial_node c) es))) =
               [Throttle_pub True CMD_PERCENT (throttle n1), Steering_pub True (steering n1),
                Brake_pub True CMD_TORQUE (brake n1)])
       \<and> (throttle (initial_node c), brake (initial_node c), steering (initial_node c)) = (0, 0, 0)
       \<and> transmitted (snd (loop_iteration control (initial_node c))) =
           [Throttle_pub True CMD_PERCENT 0, Steering_pub True 0, Brake_pub True CMD_TORQUE 0]"
proof -
  from assms have 1: "dbw_enabled (node_after control (initial_node c) es) = Py_bool True"
    by (simp add: dbw_enabled_unchanged initial_node_def)
  then have 2: "(let n1 = fst (loop_iteration control (node_after control (initial_node c) es))
          in transmitted (snd (loop_iteration control (node_after control (initial_node c) es))) =
               [Throttle_pub True CMD_PERCENT (throttle n1), Steering_pub True (steering n1),
                Brake_pub True CMD_TORQUE (brake n1)])"
    by (simp add: transmitted_loop_iteration Let_def publish_def)
  have 3: "(throttle (initial_node c), brake (initial_node c), steering (initial_node c)) = (0, 0, 0)"
    by (simp add: initial_node_def)
  have "\<not> inputs_ready (initial_node c)"
    by (simp add: inputs_ready_def initial_node_def)
  then have 4: "transmitted (snd (loop_iteration control (initial_node c))) =
      [Throttle_pub True CMD_PERCENT 0, Steering_pub True 0, Brake_pub True CMD_TORQUE 0]"
    by (simp add: loop_iteration_not_ready transmitted_publish_step publish_def)
       (simp add: initial_node_def)
  from 1 2 3 4 show ?thesis by blast
qed

theorem publishes_before_any_enable_message_witness:
  "\<not> list_ex is_dbw_enabled_msg
        [Tick, Current_velocity_msg (stamped 4 0), Twist_cmd_msg (stamped 5 6)]
   \<and> dbw_enabled (node_after echo_control (initial_node ())
        [Tick, Current_velocity_msg (stamped 4 0), Twist_cmd_msg (stamped 5 6)]) = Py_bool True
   \<and> transmitted (snd (loop_iteration echo_control (node_after echo_control (initial_node ())
        [Tick, Current_velocity_msg (stamped 4 0), Twist_cmd_msg (stamped 5 6)]))) =
       [Throttle_pub True CMD_PERCENT 4, Steering_pub True 6, Brake_pub True CMD_TORQUE 5]
   \<and> transmitted (snd (loop_iteration echo_control (initial_node ()))) =
       [Throttle_pub True CMD_PERCENT 0, Steering_pub True 0, Brake_pub True CMD_TORQUE 0]"
proof -
  let ?es = "[Tick, Current_velocity_msg (stamped 4 0), Twist_cmd_msg (stamped 5 6)]"
  have h: "\<not> list_ex is_dbw_enabled_msg ?es"
    by simp
  have held: "throttle (fst (loop_iteration echo_control (node_after echo_control (initial_node ()) ?es))) = 4
      \<and> steering (fst (loop_iteration echo_control (node_after echo_control (initial_node ()) ?es))) = 6
      \<and> brake (fst (loop_iteration echo_control (node_after echo_control (initial_node ()) ?es))) = 5"
    by (simp add: node_after_def loop_iteration_def control_step_def inputs_ready_def
        initial_node_def twist_cb_def velocity_cb_def)
  from publishes_before_any_enable_message [OF h, of echo_control "()"] h held
  show ?thesis by (simp add: Let_def)
qed

text \<open>
  Claim C9. The subscriber callbacks never write \<open>None\<close>: the twist callback
  leaves both setpoints set and the velocity callback leaves the current velocity set. So
  once the three inputs are ready they are ready after any further event and any further
  schedule, and every later tick invokes \<open>control\<close>.
\<close>

theorem readiness_is_monotone:
  assumes "inputs_ready n"
  shows "linear_vel (twist_cb m tw) \<noteq> None \<and> angular_vel (twist_cb m tw) \<noteq> None
       \<and> current_vel (velocity_cb m ve) \<noteq> None
       \<and> inputs_ready (fst (handle_event control n e))
       \<and> inputs_ready (node_after control n es)
       \<and> control_calls (snd (loop_iteration control (node_after control n es))) \<noteq> []"
proof -
  have 1: "linear_vel (twist_cb m tw) \<noteq> None \<and> angular_vel (twist_cb m tw) \<noteq> None
       \<and> current_vel (velocity_cb m ve) \<noteq> None"
    by (simp add: twist_cb_def velocity_cb_def)
  from assms have 2: "inputs_ready (fst (handle_event control n e))"
    by (rule inputs_ready_handle_event)
  from assms have 3: "inputs_ready (node_after control n es)"
    by (rule inputs_ready_node_after)
  then have 4: "control_calls (snd (loop_iteration control (node_after control n es))) \<noteq> []"
    by (simp add: control_calls_loop_iteration)
  from 1 2 3 4 show ?thesis by blast
qed

theorem readiness_is_monotone_witness:
  "inputs_ready (initial_node ()\<lparr>current_vel := Some 4, linear_vel := Some 5, angular_vel := Some 6\<rparr>)
   \<and> inputs_ready (node_after echo_control
        (initial_node ()\<lparr>current_vel := Some 4, linear_vel := Some 5, angular_vel := Some 6\<rparr>)
        [Tick, Dbw_enabled_msg (BoolMsg False), Tick])
   \<and> control_calls (snd (loop_iteration echo_control (node_after echo_control
        (initial_node ()\<lparr>current_vel := Some 4, linear_vel := Some 5, angular_vel := Some 6\<rparr>)
        [Tick, Dbw_enabled_msg (BoolMsg False), Tick]))) \<noteq> []"
proof -
  let ?n = "initial_node ()\<lparr>current_vel := Some 4, linear_vel := Some 5, angular_vel := Some 6\<rparr>"
  have h: "inputs_ready ?n" by (simp add: inputs_ready_def)
  from readiness_is_monotone [OF h, where control = echo_control and e = Tick
      and es = "[Tick, Dbw_enabled_msg (BoolMsg False), Tick]"] h
  show ?thesis by blast
qed

text \<open>
  Claim C10. On a tick where the flag is true and the inputs are not all observed, the
  node leaves its state alone, does not call \<open>control\<close> and still sends the three
  commands carrying the held triple; in a run from construction \<open>control\<close> has then
  never run and the three commands carry (0, 0, 0).
\<close>

theorem publishes_held_outputs_when_not_ready:
  "(truthy (dbw_enabled n) \<and> \<not> inputs_ready n \<longrightarrow>
      fst (loop_iteration control n) = n \<and>
      control_calls (snd (loop_iteration control n)) = [] \<and>
      transmitted (snd (loop_iteration control n)) =
        [Throttle_pub True CMD_PERCENT (throttle n), Steering_pub True (steering n),
         Brake_pub True CMD_TORQUE (brake n)])
   \<and> (\<not> inputs_ready (node_after control (initial_node c) es) \<longrightarrow>
      control_calls (snd (run_node control (initial_node c) es)) = [] \<and>
      transmitted (snd (loop_iteration control (node_after control (initial_node c) es))) =
        [Throttle_pub True CMD_PERCENT 0, Steering_pub True 0, Brake_pub True CMD_TORQUE 0])"
proof -
  have 1: "truthy (dbw_enabled n) \<and> \<not> inputs_ready n \<longrightarrow>
      fst (loop_iteration control n) = n \<and>
      control_calls (snd (loop_iteration control n)) = [] \<and>
      transmitted (snd (loop_iteration control n)) =
        [Throttle_pub True CMD_PERCENT (throttle n), Steering_pub True (steering n),
         Brake_pub True CMD_TORQUE (brake n)]"
    by (simp add: loop_iteration_not_ready control_calls_publish_step transmitted_publish_step
        publish_def)
  let ?m = "node_after control (initial_node c) es"
  have t: "truthy (dbw_enabled ?m)"
    by (rule truthy_node_after) (simp add: initial_node_def)
  have z: "inputs_ready ?m \<or> held_zero ?m"
    by (rule fresh_node_after) (simp add: held_zero_def initial_node_def)
  have 2: "\<not> inputs_ready ?m \<longrightarrow>
      control_calls (snd (run_node control (initial_node c) es)) = [] \<and>
      transmitted (snd (loop_iteration control ?m)) =
        [Throttle_pub True CMD_PERCENT 0, Steering_pub True 0, Brake_pub True CMD_TORQUE 0]"
  proof
    assume nr: "\<not> inputs_ready ?m"
    with z have "held_zero ?m" by simp
    with nr t have "transmitted (snd (loop_iteration control ?m)) =
        [Throttle_pub True CMD_PERCENT 0, Steering_pub True 0, Brake_pub True CMD_TORQUE 0]"
      by (simp add: loop_iteration_not_ready transmitted_publish_step held_zero_def publish_def)
    with nr show "control_calls (snd (run_node control (initial_node c) es)) = [] \<and>
      transmitted (snd (loop_iteration control ?m)) =
        [Throttle_pub True CMD_PERCENT 0, Steering_pub True 0, Brake_pub True CMD_TORQUE 0]"
      by (simp add: no_control_before_ready)
  qed
  from 1 2 show ?thesis by blast
qed

theorem publishes_held_outputs_when_not_ready_witness:
  "truthy (dbw_enabled (initial_node ()\<lparr>throttle := 7, brake := 8, steering := 9\<rparr>))
   \<and> \<not> inputs_ready (initial_node ()\<lparr>throttle := 7, brake := 8, steering := 9\<rparr>)
   \<and> transmitted (snd (loop_iteration echo_control
        (initial_node ()\<lparr>throttle := 7, brake := 8, steering := 9\<rparr>))) =
       [Throttle_pub True CMD_PERCENT 7, Steering_pub True 9, Brake_pub True CMD_TORQUE 8]
   \<and> \<not> inputs_ready (node_after echo_control (initial_node ())
        [Dbw_enabled_msg (BoolMsg False), Current_velocity_msg (stamped 4 0), Tick])
   \<and> transmitted (snd (loop_iteration echo_control (node_after echo_control (initial_node ())
        [Dbw_enabled_msg (BoolMsg False), Current_velocity_msg (stamped 4 0), Tick]))) =
       [Throttle_pub True CMD_PERCENT 0, Steering_pub True 0, Brake_pub True CMD_TORQUE 0]"
proof -
  let ?n = "initial_node ()\<lparr>throttle := 7, brake := 8, steering := 9\<rparr>"
  let ?es = "[Dbw_enabled_msg (BoolMsg False), Current_velocity_msg (stamped 4 0), Tick]"
  have h1: "truthy (dbw_enabled ?n) \<and> \<not> inputs_ready ?n"
    by (simp add: initial_node_def inputs_ready_def)
  have h2: "\<not> inputs_ready (node_after echo_control (initial_node ()) ?es)"
    by (simp add: node_eval)
  from publishes_held_outputs_when_not_ready [of ?n echo_control "()" ?es] h1 h2
  show ?thesis by simp
qed

subsection \<open>Construction\<close>




subsection \<open>The rate of the loop and the arguments of the call\<close>

text \<open>
  Claim C6 as stated has \<open>control\<close> invoked once on every tick. The first tick of a
  fresh node, whose inputs are still \<open>None\<close>, invokes it not at all.
\<close>

theorem no_control_on_first_tick:
  "length (control_calls (snd (run_node echo_control (initial_node ()) [Tick]))) \<noteq> 1"
  by (simp add: loop_iteration_def control_step_def inputs_ready_def initial_node_def
      publish_step_def publish_def control_calls_def)

text \<open>
  Claim C6, amended. The configured frequency is the constant 10, which is at least 10.
  A tick invokes \<open>control\<close> exactly once when the three inputs are ready and not at all
  otherwise. The arguments are the most recently stored values: the x of the last
  velocity message, the x and z of the last twist message, and the stored flag, which is
  the last message received on /vehicle/dbw\_enabled.
\<close>

theorem control_once_per_ready_tick:
  "TWIST_CONTROLLER_UPDATE_FREQUENCY = 10 \<and> 10 \<le> TWIST_CONTROLLER_UPDATE_FREQUENCY
   \<and> length (control_calls (snd (loop_iteration control n))) = (if inputs_ready n then 1 else 0)
   \<and> (es = pre1 @ Current_velocity_msg mv # post1 \<and> \<not> list_ex is_current_velocity_msg post1 \<and>
      es = pre2 @ Twist_cmd_msg mt # post2 \<and> \<not> list_ex is_twist_cmd_msg post2 \<longrightarrow>
        control_calls (snd (loop_iteration control (node_after control n0 es))) =
          [Control_call (vec_x (twist_linear (stamped_twist mv)))
                        (dbw_enabled (node_after control n0 es))
                        (vec_x (twist_linear (stamped_twist mt)))
                        (vec_z (twist_angular (stamped_twist mt)))])
   \<and> (es = pre3 @ Dbw_enabled_msg mb # post3 \<and> \<not> list_ex is_dbw_enabled_msg post3 \<longrightarrow>
        dbw_enabled (node_after control n0 es) = Py_msg mb)"
proof -
  have 1: "TWIST_CONTROLLER_UPDATE_FREQUENCY = 10 \<and> 10 \<le> TWIST_CONTROLLER_UPDATE_FREQUENCY"
    by (simp add: TWIST_CONTROLLER_UPDATE_FREQUENCY_def)
  have 2: "length (control_calls (snd (loop_iteration control n))) = (if inputs_ready n then 1 else 0)"
    by (simp add: control_calls_loop_iteration)
  have 3: "control_calls (snd (loop_iteration control (node_after control n0 es))) =
          [Control_call (vec_x (twist_linear (stamped_twist mv)))
                        (dbw_enabled (node_after control n0 es))
                        (vec_x (twist_linear (stamped_twist mt)))
                        (vec_z (twist_angular (stamped_twist mt)))]"
    if v: "es = pre1 @ Current_velocity_msg mv # post1" "\<not> list_ex is_current_velocity_msg post1"
      and t: "es = pre2 @ Twist_cmd_msg mt # post2" "\<not> list_ex is_twist_cmd_msg post2"
  proof -
    let ?m = "node_after control n0 es"
    from v have cv: "current_vel ?m = Some (vec_x (twist_linear (stamped_twist mv)))"
      by (simp add: node_after_append node_after_Cons current_vel_unchanged velocity_cb_def)
    from t have lv: "linear_vel ?m = Some (vec_x (twist_linear (stamped_twist mt)))"
      and av: "angular_vel ?m = Some (vec_z (twist_angular (stamped_twist mt)))"
      by (simp_all add: node_after_append node_after_Cons twist_unchanged twist_cb_def)
    from cv lv av have "inputs_ready ?m" by (simp add: inputs_ready_iff)
    with cv lv av show ?thesis by (simp add: control_calls_loop_iteration)
  qed
  have 4: "dbw_enabled (node_after control n0 es) = Py_msg mb"
    if "es = pre3 @ Dbw_enabled_msg mb # post3" "\<not> list_ex is_dbw_enabled_msg post3"
    using that
    by (simp add: node_after_append node_after_Cons dbw_enabled_unchanged dbw_enabled_cb_def Let_def)
  from 1 2 3 4 show ?thesis by blast
qed

theorem control_once_per_ready_tick_witness:
  "[Current_velocity_msg (stamped 4 0), Twist_cmd_msg (stamped 5 6),
     Dbw_enabled_msg (BoolMsg False), Tick]
     = [] @ Current_velocity_msg (stamped 4 0)
          # [Twist_cmd_msg (stamped 5 6), Dbw_enabled_msg (BoolMsg False), Tick]
   \<and> \<not> list_ex is_current_velocity_msg
          [Twist_cmd_msg (stamped 5 6), Dbw_enabled_msg (BoolMsg False), Tick]
   \<and> [Current_velocity_msg (stamped 4 0), Twist_cmd_msg (stamped 5 6),
       Dbw_enabled_msg (BoolMsg False), Tick]
     = [Current_velocity_msg (stamped 4 0)] @ Twist_cmd_msg (stamped 5 6)
          # [Dbw_enabled_msg (BoolMsg False), Tick]
   \<and> \<not> list_ex is_twist_cmd_msg [Dbw_enabled_msg (BoolMsg False), Tick]
   \<and> [Current_velocity_msg (stamped 4 0), Twist_cmd_msg (stamped 5 6),
       Dbw_enabled_msg (BoolMsg False), Tick]
     = [Current_velocity_msg (stamped 4 0), Twist_cmd_msg (stamped 5 6)]
          @ Dbw_enabled_msg (BoolMsg False) # [Tick]
   \<and> \<not> list_ex is_dbw_enabled_msg [Tick]
   \<and> control_calls (snd (loop_iteration echo_control (node_after echo_control (initial_node ())
        [Current_velocity_msg (stamped 4 0), Twist_cmd_msg (stamped 5 6),
         Dbw_enabled_msg (BoolMsg False), Tick])))
       = [Control_call 4 (Py_msg (BoolMsg False)) 5 6]"
proof -
  let ?es = "[Current_velocity_msg (stamped 4 0), Twist_cmd_msg (stamped 5 6),
              Dbw_enabled_msg (BoolMsg False), Tick]"
  note t = control_once_per_ready_tick [where control = echo_control and es = ?es
      and ?pre1.0 = "[]" and mv = "stamped 4 0"
      and ?post1.0 = "[Twist_cmd_msg (stamped 5 6), Dbw_enabled_msg (BoolMsg False), Tick]"
      and ?pre2.0 = "[Current_velocity_msg (stamped 4 0)]" and mt = "stamped 5 6"
      and ?post2.0 = "[Dbw_enabled_msg (BoolMsg False), Tick]"
      and ?n0.0 = "initial_node ()"
      and ?pre3.0 = "[Current_velocity_msg (stamped 4 0), Twist_cmd_msg (stamped 5 6)]"
      and mb = "BoolMsg False" and ?post3.0 = "[Tick]"]
  from t have a: "control_calls (snd (loop_iteration echo_control
        (node_after echo_control (initial_node ()) ?es))) =
      [Control_call 4 (dbw_enabled (node_after echo_control (initial_node ()) ?es)) 5 6]"
    by simp
  from t have b: "dbw_enabled (node_after echo_control (initial_node ()) ?es) =
      Py_msg (BoolMsg False)"
    by simp
  from a b show ?thesis by simp
qed

end
